theory Spec2Isabelle
  imports Main "HOL-Library.Sublist"
begin

section \<open>Strings\<close>

text \<open>
  Python \<^verbatim>\<open>str\<close> values are modelled as \<^typ>\<open>string\<close>, one \<^typ>\<open>char\<close> per code
  point: a \<^typ>\<open>char\<close> is a code point from U+0000 to U+00FF. White space is the white
  space of Python over the whole of that range. The case functions \<^verbatim>\<open>lower\<close> and
  \<^verbatim>\<open>capitalize\<close> change the letters A to Z and a to z and leave every other
  character alone.
\<close>

text \<open>White space of \<^verbatim>\<open>str.strip()\<close> and \<^verbatim>\<open>str.isspace()\<close> among the code points below
  256: TAB, LF, VT, FF, CR, the separators FS, GS, RS, US, the blank, NEL (U+0085) and
  the no-break space (U+00A0).\<close>

definition is_space :: "char \<Rightarrow> bool" where
  "is_space c = (c \<in> set [CHR 0x09, CHR 0x0A, CHR 0x0B, CHR 0x0C, CHR 0x0D,
                            CHR 0x1C, CHR 0x1D, CHR 0x1E, CHR 0x1F, CHR 0x20,
                            CHR 0x85, CHR 0xA0])"

definition strip :: "string \<Rightarrow> string" where
  "strip s = rev (dropWhile is_space (rev (dropWhile is_space s)))"

definition lower_char :: "char \<Rightarrow> char" where
  "lower_char c =
     (let n = (of_char c :: nat) in if 65 \<le> n \<and> n \<le> 90 then char_of (n + 32) else c)"

definition upper_char :: "char \<Rightarrow> char" where
  "upper_char c =
     (let n = (of_char c :: nat) in if 97 \<le> n \<and> n \<le> 122 then char_of (n - 32) else c)"

definition lower :: "string \<Rightarrow> string" where
  "lower s = map lower_char s"

text \<open>\<^verbatim>\<open>str.capitalize()\<close>: the first character in upper case, the rest in lower case.\<close>

definition capitalize :: "string \<Rightarrow> string" where
  "capitalize s = (case s of [] \<Rightarrow> [] | c # cs \<Rightarrow> upper_char c # lower cs)"

text \<open>\<^verbatim>\<open>s.split(sep)\<close> for a one-character separator: the empty string gives one empty
  segment, and \<open>n\<close> separators give \<open>n + 1\<close> segments.\<close>

fun split :: "char \<Rightarrow> string \<Rightarrow> string list" where
  "split sep [] = [[]]"
| "split sep (c # cs) =
     (if c = sep then [] # split sep cs
      else (case split sep cs of [] \<Rightarrow> [[c]] | w # ws \<Rightarrow> (c # w) # ws))"

text \<open>\<^verbatim>\<open>sep.join(parts)\<close>, used only to state what \<open>split\<close> computes.\<close>

fun join :: "string \<Rightarrow> string list \<Rightarrow> string" where
  "join sep [] = []"
| "join sep [w] = w"
| "join sep (w # v # ws) = w @ sep @ join sep (v # ws)"

section \<open>The cloud provider\<close>

text \<open>
  One instance of a \<^verbatim>\<open>describe_instances\<close> response, with the three keys the program
  reads: \<^verbatim>\<open>inst["InstanceId"]\<close>, \<^verbatim>\<open>inst["State"]["Name"]\<close> and the optional
  \<^verbatim>\<open>inst["Platform"]\<close>. A reservation is its \<^verbatim>\<open>"Instances"\<close> list and a response is its
  \<^verbatim>\<open>"Reservations"\<close> list.
\<close>

record ec2_instance =
  InstanceId :: string
  StateName :: string
  Platform :: "string option"

type_synonym reservation = "ec2_instance list"

text \<open>
  The exceptions of the program. \<open>ClientError\<close> is botocore's; \<open>BotoError\<close> stands for
  any other exception a client call raises (it is an \<^verbatim>\<open>Exception\<close> but not a
  \<^verbatim>\<open>ClientError\<close>). Each carries the text that \<^verbatim>\<open>str(e)\<close> gives.
\<close>

datatype exn =
    ValueError string
  | IndexError string
  | ClientError string
  | BotoError string

fun exn_text :: "exn \<Rightarrow> string" where
  "exn_text (ValueError m) = m"
| "exn_text (IndexError m) = m"
| "exn_text (ClientError m) = m"
| "exn_text (BotoError m) = m"

text \<open>
  The provider, as the answers it gives to the calls of the program. Every call raises
  or returns. \<open>client\<close> is \<^verbatim>\<open>boto3.client(service, region_name=region)\<close>: it makes no
  call to the provider, and it gives the client (\<open>None\<close>) or raises (\<open>Some e\<close>), as it
  does for a region that is the empty string. For the other three
  the arguments are those the program passes: the region of the client,
  then for \<open>describe_by_tag\<close> the filter name and its values, for \<open>describe_by_id\<close> the
  instance identifier, for \<open>send_command\<close> the target instance, the document name, the
  comment and the script; \<open>send_command\<close> answers \<^verbatim>\<open>response["Command"]["CommandId"]\<close>.
  \<open>hash_order\<close> ranks identifiers: \<^verbatim>\<open>list(set(instances))\<close> lists a set in an order
  the run-time chooses, modelled as the distinct identifiers sorted by this rank, so
  that every order of them is one the model can produce.
\<close>

record cloud =
  client :: "string \<Rightarrow> string \<Rightarrow> exn option"
  describe_by_tag :: "string \<Rightarrow> string \<Rightarrow> string list \<Rightarrow> exn + reservation list"
  describe_by_id :: "string \<Rightarrow> string \<Rightarrow> exn + reservation list"
  send_command :: "string \<Rightarrow> string \<Rightarrow> string \<Rightarrow> string \<Rightarrow> string \<Rightarrow> exn + string"
  hash_order :: "string \<Rightarrow> nat"

text \<open>What a run does that can be observed: the provider calls, and the lines printed.\<close>

datatype event =
    DescribeByTag string string "string list"
  | DescribeById string string
  | SendCommand string string string string string
  | PrintErrorDescribing string
  | PrintNoRunning "string list"
  | PrintFailedDetect string string
  | PrintSent string string string
  | PrintErrorSending string string

text \<open>How a run ends: \<^verbatim>\<open>main\<close> returns, \<^verbatim>\<open>sys.exit(n)\<close>, or an exception nobody catches.\<close>

datatype halt = Returned | SysExit nat | Uncaught exn

fun exit_status :: "halt \<Rightarrow> nat" where
  "exit_status Returned = 0"
| "exit_status (SysExit n) = n"
| "exit_status (Uncaught e) = 1"

fun is_network_call :: "event \<Rightarrow> bool" where
  "is_network_call (DescribeByTag r f ns) = True"
| "is_network_call (DescribeById r i) = True"
| "is_network_call (SendCommand r i d c s) = True"
| "is_network_call e = False"

fun is_send :: "event \<Rightarrow> bool" where
  "is_send (SendCommand r i d c s) = True"
| "is_send e = False"

section \<open>get_instance_ids_by_name\<close>

text \<open>The nested loops over reservations and instances, keeping the running ones.\<close>

fun running_ids :: "reservation list \<Rightarrow> string list" where
  "running_ids [] = []"
| "running_ids (r # rs) =
     map InstanceId (filter (\<lambda>inst. StateName inst = ''running'') r) @ running_ids rs"

definition list_of_set :: "cloud \<Rightarrow> string list \<Rightarrow> string list" where
  "list_of_set w xs = sort_key (hash_order w) (remdups xs)"

text \<open>
  The client is made before the \<^verbatim>\<open>try\<close>: what it raises is caught by nobody. Inside
  the \<^verbatim>\<open>try\<close> a \<^verbatim>\<open>ClientError\<close> of either query is printed and ends the run by
  \<^verbatim>\<open>sys.exit(1)\<close>; any other exception goes on to the caller.
\<close>

definition get_instance_ids_by_name ::
  "cloud \<Rightarrow> string list \<Rightarrow> string \<Rightarrow> (halt + string list) \<times> event list" where
  "get_instance_ids_by_name w names region =
     (case client w ''ec2'' region of
        Some e \<Rightarrow> (Inl (Uncaught e), [])
      | None \<Rightarrow>
     (case describe_by_tag w region ''tag:Name'' names of
        Inl (ClientError m) \<Rightarrow>
          (Inl (SysExit 1),
           [DescribeByTag region ''tag:Name'' names, PrintErrorDescribing m])
      | Inl e \<Rightarrow> (Inl (Uncaught e), [DescribeByTag region ''tag:Name'' names])
      | Inr rs1 \<Rightarrow>
          (case describe_by_tag w region ''tag:Hostname'' names of
             Inl (ClientError m) \<Rightarrow>
               (Inl (SysExit 1),
                [DescribeByTag region ''tag:Name'' names,
                 DescribeByTag region ''tag:Hostname'' names, PrintErrorDescribing m])
           | Inl e \<Rightarrow>
               (Inl (Uncaught e),
                [DescribeByTag region ''tag:Name'' names,
                 DescribeByTag region ''tag:Hostname'' names])
           | Inr rs2 \<Rightarrow>
               (Inr (list_of_set w (running_ids (rs1 @ rs2))),
                [DescribeByTag region ''tag:Name'' names,
                 DescribeByTag region ''tag:Hostname'' names]))))"

section \<open>The generated scripts\<close>

text \<open>
  Both builders are string templates: the text between the triple quotes, with
  \<^verbatim>\<open>{services}\<close> and \<^verbatim>\<open>{action}\<close> replaced by the arguments as they are. The text
  starts with a line feed and every line ends with one.
\<close>

definition script_text :: "string list \<Rightarrow> string" where
  "script_text ls = CHR 0x0A # concat (map (\<lambda>l. l @ [CHR 0x0A]) ls)"

definition build_windows_script :: "string \<Rightarrow> string \<Rightarrow> string" where
  \<open>build_windows_script services action = script_text [
        ''$services="'' @ services @ ''" -split ","'',
        ''foreach($svc in $services){'',
        ''    try {'',
        ''        $s = Get-Service -Name $svc -ErrorAction Stop'',
        ''        if ("'' @ action @ ''" -eq "start") {'',
        ''            if ($s.Status -ne "Running") {'',
        ''                Start-Service -Name $svc -ErrorAction Stop'',
        ''                Write-Host ("Started " + $s.DisplayName)'',
        ''            } else {'',
        ''                Write-Host ($s.DisplayName + " already running")'',
        ''            }'',
        ''        } elseif ("'' @ action @ ''" -eq "stop") {'',
        ''            if ($s.Status -ne "Stopped") {'',
        ''                Stop-Service -Name $svc -ErrorAction Stop'',
        ''                Write-Host ("Stopped " + $s.DisplayName)'',
        ''            } else {'',
        ''                Write-Host ($s.DisplayName + " already stopped")'',
        ''            }'',
        ''        } elseif ("'' @ action @ ''" -eq "restart") {'',
        ''            Restart-Service -Name $svc -Force -ErrorAction Stop'',
        ''            Write-Host ("Restarted " + $s.DisplayName)'',
        ''        }'',
        ''    } catch {'',
        ''        Write-Host ("Error with " + $svc + ": " + $_)'',
        ''    }'',
        ''}'']\<close>

definition build_linux_script :: "string \<Rightarrow> string \<Rightarrow> string" where
  \<open>build_linux_script services action = script_text [
        ''services="'' @ services @ ''"'',
        ''for svc in $services; do'',
        ''    if systemctl list-unit-files | grep -q "$svc"; then'',
        ''        if [ "'' @ action @ ''" = "start" ]; then'',
        ''            sudo systemctl start "$svc" && echo "Started $svc" || echo "Failed to start $svc"'',
        ''        elif [ "'' @ action @ ''" = "stop" ]; then'',
        ''            sudo systemctl stop "$svc" && echo "Stopped $svc" || echo "Failed to stop $svc"'',
        ''        elif [ "'' @ action @ ''" = "restart" ]; then'',
        ''            sudo systemctl restart "$svc" && echo "Restarted $svc" || echo "Failed to restart $svc"'',
        ''        fi'',
        ''    else'',
        ''        echo "Error: $svc not found on this system"'',
        ''    fi'',
        ''done'']\<close>

section \<open>What the Linux script does on a host\<close>

text \<open>
  The shell program of \<open>build_linux_script\<close>, for arguments that hold no character the
  shell treats specially inside double quotes and no pattern character, so that the
  two assignments and tests read them as plain words. A host answers the two commands
  the script runs: \<open>unit_listed\<close> is whether
  \<^verbatim>\<open>systemctl list-unit-files | grep -q "$svc"\<close> succeeds, and \<open>systemctl\<close> runs
  \<^verbatim>\<open>sudo systemctl VERB "$svc"\<close>, answering whether it succeeded and the host after it.
\<close>

record 'h linux_host =
  unit_listed :: "'h \<Rightarrow> string \<Rightarrow> bool"
  systemctl :: "'h \<Rightarrow> string \<Rightarrow> string \<Rightarrow> bool \<times> 'h"

datatype sh_event = Systemctl string string | Echo string

text \<open>
  \<^verbatim>\<open>for svc in $services\<close>: the unquoted expansion is split into fields at the
  characters of the default \<^verbatim>\<open>IFS\<close> (blank, TAB, LF), and empty fields are dropped.
  The first argument is the field read so far.
\<close>

definition is_ifs :: "char \<Rightarrow> bool" where
  "is_ifs c = (c \<in> set [CHR 0x20, CHR 0x09, CHR 0x0A])"

fun sh_fields :: "string \<Rightarrow> string \<Rightarrow> string list" where
  "sh_fields cur [] = (if cur = [] then [] else [cur])"
| "sh_fields cur (c # cs) =
     (if is_ifs c then (if cur = [] then sh_fields [] cs else cur # sh_fields [] cs)
      else sh_fields (cur @ [c]) cs)"

text \<open>\<^verbatim>\<open>A && echo X || echo Y\<close>: run \<open>A\<close>, then print \<open>X\<close> if it succeeded and \<open>Y\<close> if not.\<close>

definition systemctl_and_report ::
  "'h linux_host \<Rightarrow> string \<Rightarrow> string \<Rightarrow> string \<Rightarrow> string \<Rightarrow> 'h \<Rightarrow> 'h \<times> sh_event list" where
  "systemctl_and_report H verb svc good bad h =
     (case systemctl H h verb svc of
        (ok, h') \<Rightarrow> (h', [Systemctl verb svc, Echo ((if ok then good else bad) @ svc)]))"

definition linux_loop_body ::
  "'h linux_host \<Rightarrow> string \<Rightarrow> string \<Rightarrow> 'h \<Rightarrow> 'h \<times> sh_event list" where
  "linux_loop_body H action svc h =
     (if unit_listed H h svc then
        (if action = ''start'' then
           systemctl_and_report H ''start'' svc ''Started '' ''Failed to start '' h
         else if action = ''stop'' then
           systemctl_and_report H ''stop'' svc ''Stopped '' ''Failed to stop '' h
         else if action = ''restart'' then
           systemctl_and_report H ''restart'' svc ''Restarted '' ''Failed to restart '' h
         else (h, []))
      else (h, [Echo (''Error: '' @ svc @ '' not found on this system'')]))"

fun linux_loop :: "'h linux_host \<Rightarrow> string \<Rightarrow> string list \<Rightarrow> 'h \<Rightarrow> 'h \<times> sh_event list" where
  "linux_loop H action [] h = (h, [])"
| "linux_loop H action (svc # svcs) h =
     (case linux_loop_body H action svc h of
        (h', out) \<Rightarrow> (case linux_loop H action svcs h' of (h'', out') \<Rightarrow> (h'', out @ out')))"

definition run_linux_script ::
  "'h linux_host \<Rightarrow> string \<Rightarrow> string \<Rightarrow> 'h \<Rightarrow> 'h \<times> sh_event list" where
  "run_linux_script H services action h = linux_loop H action (sh_fields [] services) h"

text \<open>
  A host to run the script on: its unit files are \<^verbatim>\<open>nginx.service\<close> and
  \<^verbatim>\<open>redis.service\<close>, its state is the list of running services. \<^verbatim>\<open>grep -q\<close>
  succeeds when a line of the listing holds the name as a substring;
  \<^verbatim>\<open>systemctl start\<close> of one of the two succeeds and leaves it running,
  \<^verbatim>\<open>systemctl stop\<close> succeeds and leaves it stopped, and any other unit is unknown.
\<close>

definition two_unit_host :: "string list linux_host" where
  "two_unit_host = \<lparr>
     unit_listed = (\<lambda>h svc.
        list_ex (sublist svc) [''nginx.service enabled'', ''redis.service enabled'']),
     systemctl = (\<lambda>h verb svc.
        if svc = ''nginx'' \<or> svc = ''redis'' then
          (True, if verb = ''stop'' then removeAll svc h else List.insert svc h)
        else (False, h)) \<rparr>"

section \<open>main\<close>

text \<open>\<^verbatim>\<open>not v\<close> for the value of \<^verbatim>\<open>os.getenv\<close>: unset, or set to the empty string.\<close>

definition py_not :: "string option \<Rightarrow> bool" where
  "py_not v = (case v of None \<Rightarrow> True | Some s \<Rightarrow> s = [])"

definition server_list :: "string \<Rightarrow> string list" where
  "server_list servers = [strip s. s \<leftarrow> split (CHR '','') servers, strip s \<noteq> []]"

text \<open>The first \<^verbatim>\<open>try\<close> of the loop: the lookup of one instance and of its platform.\<close>

definition detect_platform :: "cloud \<Rightarrow> string \<Rightarrow> string \<Rightarrow> exn + string" where
  "detect_platform w region instance_id =
     (case describe_by_id w region instance_id of
        Inl e \<Rightarrow> Inl e
      | Inr [] \<Rightarrow> Inl (IndexError ''list index out of range'')
      | Inr (r # rs) \<Rightarrow>
          (case r of
             [] \<Rightarrow> Inl (IndexError ''list index out of range'')
           | inst # insts \<Rightarrow> Inr (case Platform inst of None \<Rightarrow> ''Linux'' | Some p \<Rightarrow> p)))"

definition select_script :: "string \<Rightarrow> string \<Rightarrow> string \<Rightarrow> string \<times> string" where
  "select_script platform services action =
     (if lower platform = ''windows''
      then (build_windows_script services action, ''AWS-RunPowerShellScript'')
      else (build_linux_script services action, ''AWS-RunShellScript''))"

text \<open>
  One turn of the loop over the instances. \<open>None\<close> means the loop goes on with the next
  instance; \<open>Some h\<close> means the run ends here with \<open>h\<close>.
\<close>

definition loop_body ::
  "cloud \<Rightarrow> string \<Rightarrow> string \<Rightarrow> string \<Rightarrow> string \<Rightarrow> halt option \<times> event list" where
  "loop_body w region services action instance_id =
     (case detect_platform w region instance_id of
        Inl e \<Rightarrow>
          (None, [DescribeById region instance_id,
                  PrintFailedDetect instance_id (exn_text e)])
      | Inr platform \<Rightarrow>
          (case select_script platform services action of
             (script, document) \<Rightarrow>
               (case send_command w region instance_id document
                       (capitalize action @ '' services: '' @ services) script of
                  Inr command_id \<Rightarrow>
                    (None, [DescribeById region instance_id,
                            SendCommand region instance_id document
                              (capitalize action @ '' services: '' @ services) script,
                            PrintSent instance_id action command_id])
                | Inl (ClientError m) \<Rightarrow>
                    (None, [DescribeById region instance_id,
                            SendCommand region instance_id document
                              (capitalize action @ '' services: '' @ services) script,
                            PrintErrorSending instance_id m])
                | Inl e \<Rightarrow>
                    (Some (Uncaught e),
                     [DescribeById region instance_id,
                      SendCommand region instance_id document
                        (capitalize action @ '' services: '' @ services) script]))))"

fun dispatch :: "cloud \<Rightarrow> string \<Rightarrow> string \<Rightarrow> string \<Rightarrow> string list \<Rightarrow> halt \<times> event list" where
  "dispatch w region services action [] = (Returned, [])"
| "dispatch w region services action (instance_id # ids) =
     (case loop_body w region services action instance_id of
        (Some h, evs) \<Rightarrow> (h, evs)
      | (None, evs) \<Rightarrow>
          (case dispatch w region services action ids of (h, evs') \<Rightarrow> (h, evs @ evs')))"

text \<open>
  The driver. The environment is the map that \<^verbatim>\<open>os.getenv\<close> reads. The two clients of
  lines 100 and 101 are made after a resolution that found an instance and before the
  loop; what their making raises is caught by nobody.
\<close>

definition main :: "(string \<rightharpoonup> string) \<Rightarrow> cloud \<Rightarrow> halt \<times> event list" where
  "main env w =
     (let servers = env ''server_names'';
          services = env ''Service'';
          action = env ''Action'';
          region = (case env ''region'' of None \<Rightarrow> ''us-east-1'' | Some r \<Rightarrow> r)
      in if py_not servers \<or> py_not services \<or> py_not action then
           (Uncaught (ValueError ''Missing required env vars: servers, Service, Action''), [])
         else
           (case get_instance_ids_by_name w (server_list (the servers)) region of
              (Inl h, evs) \<Rightarrow> (h, evs)
            | (Inr instance_ids, evs) \<Rightarrow>
                if instance_ids = [] then
                  (SysExit 1, evs @ [PrintNoRunning (server_list (the servers))])
                else
                  (case client w ''ec2'' region of
                     Some e \<Rightarrow> (Uncaught e, evs)
                   | None \<Rightarrow>
                  (case client w ''ssm'' region of
                     Some e \<Rightarrow> (Uncaught e, evs)
                   | None \<Rightarrow>
                  (case dispatch w region (the services) (the action) instance_ids of
                     (h, evs') \<Rightarrow> (h, evs @ evs'))))))"

section \<open>Outcomes, as the printed lines tell them\<close>

text \<open>
  The program keeps no list of outcomes: what happened to an instance is the line it
  prints for it. \<open>outcomes\<close> reads the three per-instance lines off the events of a run.
\<close>

datatype dispatch_outcome =
    sent string string
  | platformDetectFailed string
  | submitFailed string

fun outcome_of :: "event \<Rightarrow> dispatch_outcome list" where
  "outcome_of (PrintSent i a c) = [sent i c]"
| "outcome_of (PrintFailedDetect i m) = [platformDetectFailed i]"
| "outcome_of (PrintErrorSending i m) = [submitFailed i]"
| "outcome_of e = []"

definition outcomes :: "event list \<Rightarrow> dispatch_outcome list" where
  "outcomes evs = concat (map outcome_of evs)"

fun is_send_to :: "string \<Rightarrow> event \<Rightarrow> bool" where
  "is_send_to i (SendCommand r j d c s) = (i = j)"
| "is_send_to i e = False"

fun is_ClientError :: "exn \<Rightarrow> bool" where
  "is_ClientError (ClientError m) = True"
| "is_ClientError e = False"

definition region_of :: "(string \<rightharpoonup> string) \<Rightarrow> string" where
  "region_of env = (case env ''region'' of None \<Rightarrow> ''us-east-1'' | Some r \<Rightarrow> r)"

definition comment_of :: "string \<Rightarrow> string \<Rightarrow> string" where
  "comment_of action services = capitalize action @ '' services: '' @ services"

section \<open>A small fleet to run the program on\<close>

text \<open>
  Four instances: \<^verbatim>\<open>i-1\<close> is running, has no platform attribute and carries both
  tags; \<^verbatim>\<open>i-2\<close> is stopped and cannot be looked up; \<^verbatim>\<open>i-3\<close> is a running Windows
  machine; \<^verbatim>\<open>i-4\<close> is a running Linux machine to which commands are throttled. The
  name \<^verbatim>\<open>web-1\<close> matches \<^verbatim>\<open>i-1\<close> and \<^verbatim>\<open>i-2\<close> by display name and \<^verbatim>\<open>i-1\<close> by
  host name; no other name matches. A client is made for every region but the empty
  string.
\<close>

definition inst1 :: ec2_instance where
  "inst1 = \<lparr>InstanceId = ''i-1'', StateName = ''running'', Platform = None\<rparr>"

definition inst2 :: ec2_instance where
  "inst2 = \<lparr>InstanceId = ''i-2'', StateName = ''stopped'', Platform = None\<rparr>"

definition inst3 :: ec2_instance where
  "inst3 = \<lparr>InstanceId = ''i-3'', StateName = ''running'', Platform = Some ''Windows''\<rparr>"

definition inst4 :: ec2_instance where
  "inst4 = \<lparr>InstanceId = ''i-4'', StateName = ''running'', Platform = Some ''linux''\<rparr>"

definition fleet :: cloud where
  "fleet = \<lparr>
     client = (\<lambda>service region.
        if region = [] then Some (ValueError ''Invalid endpoint'') else None),
     describe_by_tag = (\<lambda>region tag names.
        if ''web-1'' \<in> set names
        then (if tag = ''tag:Name'' then Inr [[inst1, inst2]] else Inr [[inst1]])
        else Inr []),
     describe_by_id = (\<lambda>region i.
        if i = ''i-1'' then Inr [[inst1]]
        else if i = ''i-3'' then Inr [[inst3]]
        else if i = ''i-4'' then Inr [[inst4]]
        else Inl (ClientError ''InvalidInstanceID.NotFound'')),
     send_command = (\<lambda>region i document comment script.
        if i = ''i-4'' then Inl (ClientError ''ThrottlingException'')
        else Inr (''cmd-'' @ i)),
     hash_order = (\<lambda>i. 0) \<rparr>"

text \<open>The same fleet when the command channel cannot be reached at all.\<close>

definition fleet_offline :: cloud where
  "fleet_offline = fleet \<lparr>send_command :=
     (\<lambda>region i document comment script. Inl (BotoError ''Could not connect to the endpoint URL''))\<rparr>"

text \<open>The same fleet when the inventory cannot be reached for the lookup of an instance.\<close>

definition fleet_lookup_down :: cloud where
  "fleet_lookup_down = fleet \<lparr>describe_by_id :=
     (\<lambda>region i. Inl (BotoError ''Could not connect to the endpoint URL''))\<rparr>"

definition env_stop :: "string \<rightharpoonup> string" where
  "env_stop = map_of [(''server_names'', ''web-1''), (''Service'', ''nginx''), (''Action'', ''stop'')]"

definition env_reboot :: "string \<rightharpoonup> string" where
  "env_reboot = map_of [(''server_names'', ''web-1''), (''Service'', ''nginx''), (''Action'', ''reboot'')]"

definition env_ghost :: "string \<rightharpoonup> string" where
  "env_ghost = map_of [(''server_names'', ''ghost''), (''Service'', ''nginx''), (''Action'', ''stop'')]"

definition env_no_action :: "string \<rightharpoonup> string" where
  "env_no_action = map_of [(''server_names'', ''web-1''), (''Service'', ''nginx'')]"

definition env_blank_region :: "string \<rightharpoonup> string" where
  "env_blank_region = map_of [(''server_names'', ''web-1''), (''Service'', ''nginx''),
                              (''Action'', ''stop''), (''region'', [])]"

definition env_spaced :: "string \<rightharpoonup> string" where
  "env_spaced = map_of [(''server_names'', '' web-1, ,web-2 ''), (''Service'', ''nginx''), (''Action'', ''stop'')]"

section \<open>Facts about the string functions\<close>

lemma split_nonempty: "split sep s \<noteq> []"
  by (induction s) (auto split: list.splits)

lemma join_split: "join [sep] (split sep s) = s"
proof (induction s)
  case Nil show ?case by simp
next
  case (Cons c cs)
  obtain w ws where sp: "split sep cs = w # ws"
    using split_nonempty [of sep cs] by (cases "split sep cs") auto
  show ?case using Cons sp by (cases ws) auto
qed

lemma split_no_sep: "seg \<in> set (split sep s) \<Longrightarrow> sep \<notin> set seg"
  by (induction s arbitrary: seg) (auto split: if_splits list.splits)

lemma rev_drop_take: "rev (dropWhile P (rev xs)) @ rev (takeWhile P (rev xs)) = xs"
proof -
  have "rev (dropWhile P (rev xs)) @ rev (takeWhile P (rev xs))
        = rev (takeWhile P (rev xs) @ dropWhile P (rev xs))"
    by (simp only: rev_append)
  also have "\<dots> = rev (rev xs)" by (simp only: takeWhile_dropWhile_id)
  finally show ?thesis by simp
qed

lemma strip_tail:
  "dropWhile is_space s = strip s @ rev (takeWhile is_space (rev (dropWhile is_space s)))"
  unfolding strip_def by (rule rev_drop_take [symmetric])

lemma strip_decomp:
  "\<exists>a b. s = a @ strip s @ b \<and> list_all is_space a \<and> list_all is_space b"
proof -
  let ?t = "dropWhile is_space s"
  let ?a = "takeWhile is_space s"
  let ?b = "rev (takeWhile is_space (rev ?t))"
  have "s = ?a @ ?t" by simp
  also have "?t = strip s @ ?b" by (rule strip_tail)
  finally have 1: "s = ?a @ strip s @ ?b" .
  have 3: "list_all is_space ?a"
    by (simp add: list_all_iff) (meson set_takeWhileD)
  have 4: "list_all is_space ?b"
    by (simp add: list_all_iff) (meson set_takeWhileD)
  from 1 3 4 show ?thesis by blast
qed

lemma strip_ends:
  assumes ne: "strip s \<noteq> []"
  shows "\<not> is_space (hd (strip s)) \<and> \<not> is_space (last (strip s))"
proof -
  let ?t = "dropWhile is_space s"
  let ?u = "dropWhile is_space (rev ?t)"
  have u: "?u \<noteq> []" using ne by (simp add: strip_def)
  have l: "\<not> is_space (hd ?u)" using u by (rule hd_dropWhile)
  have "last (strip s) = hd ?u" using u by (simp only: strip_def last_rev)
  with l have A: "\<not> is_space (last (strip s))" by simp
  have t: "?t \<noteq> []"
  proof
    assume "?t = []"
    then have "?u = []" by (simp only: rev.simps dropWhile.simps)
    with u show False by contradiction
  qed
  have ht: "\<not> is_space (hd ?t)" using t by (rule hd_dropWhile)
  have "hd ?t = hd (strip s @ rev (takeWhile is_space (rev ?t)))"
    using strip_tail [of s] by simp
  also have "\<dots> = hd (strip s)" using ne by (rule hd_append2)
  finally have "hd ?t = hd (strip s)" .
  with ht A show ?thesis by simp
qed

lemma concat_if_filter:
  "concat (map (\<lambda>s. if f s \<noteq> [] then [f s] else []) xs) = filter (\<lambda>s. s \<noteq> []) (map f xs)"
  by (induction xs) auto

lemma server_list_alt:
  "server_list servers = filter (\<lambda>s. s \<noteq> []) (map strip (split (CHR '','') servers))"
  by (simp add: server_list_def concat_if_filter)

section \<open>Facts about resolution, the loop and main\<close>

lemma set_running_ids:
  "set (running_ids rs) = InstanceId ` {inst \<in> set (concat rs). StateName inst = ''running''}"
  by (induction rs) auto

lemma distinct_list_of_set: "distinct (list_of_set w xs)"
  by (simp add: list_of_set_def)

lemma set_list_of_set: "set (list_of_set w xs) = set xs"
  by (simp add: list_of_set_def)

lemma resolve_returns:
  assumes "client w ''ec2'' region = None"
      and "describe_by_tag w region ''tag:Name'' names = Inr rs1"
      and "describe_by_tag w region ''tag:Hostname'' names = Inr rs2"
  shows "get_instance_ids_by_name w names region =
           (Inr (list_of_set w (running_ids (rs1 @ rs2))),
            [DescribeByTag region ''tag:Name'' names, DescribeByTag region ''tag:Hostname'' names])"
  using assms by (simp add: get_instance_ids_by_name_def)

lemma resolve_first_call:
  assumes "client w ''ec2'' region = None"
  shows "\<exists>r evs. get_instance_ids_by_name w names region =
             (r, DescribeByTag region ''tag:Name'' names # evs)"
  using assms by (simp add: get_instance_ids_by_name_def split: sum.split exn.split)

lemma resolve_no_client:
  assumes "client w ''ec2'' region = Some e"
  shows "get_instance_ids_by_name w names region = (Inl (Uncaught e), [])"
  using assms by (simp add: get_instance_ids_by_name_def)

lemma resolve_returned:
  assumes "get_instance_ids_by_name w names region = (Inr ids, evs)"
  shows "\<exists>rs1 rs2. client w ''ec2'' region = None
           \<and> describe_by_tag w region ''tag:Name'' names = Inr rs1
           \<and> describe_by_tag w region ''tag:Hostname'' names = Inr rs2
           \<and> ids = list_of_set w (running_ids (rs1 @ rs2))"
  using assms
  by (auto simp add: get_instance_ids_by_name_def split: option.splits sum.splits exn.splits)

lemma main_config_ok:
  assumes "env ''server_names'' = Some servers" "env ''Service'' = Some services"
      and "env ''Action'' = Some action"
      and "servers \<noteq> []" "services \<noteq> []" "action \<noteq> []"
  shows "main env w =
     (case get_instance_ids_by_name w (server_list servers) (region_of env) of
        (Inl h, evs) \<Rightarrow> (h, evs)
      | (Inr instance_ids, evs) \<Rightarrow>
          if instance_ids = [] then (SysExit 1, evs @ [PrintNoRunning (server_list servers)])
          else (case client w ''ec2'' (region_of env) of
                  Some e \<Rightarrow> (Uncaught e, evs)
                | None \<Rightarrow>
               (case client w ''ssm'' (region_of env) of
                  Some e \<Rightarrow> (Uncaught e, evs)
                | None \<Rightarrow>
               (case dispatch w (region_of env) services action instance_ids of
                  (h, evs') \<Rightarrow> (h, evs @ evs')))))"
  using assms
  by (simp add: main_def py_not_def region_of_def Let_def
        split: prod.split sum.split option.split)

lemma main_config_missing:
  assumes "py_not (env ''server_names'') \<or> py_not (env ''Service'') \<or> py_not (env ''Action'')"
  shows "main env w =
           (Uncaught (ValueError ''Missing required env vars: servers, Service, Action''), [])"
  using assms by (auto simp add: main_def Let_def)

lemma loop_body_detect_failed:
  assumes "detect_platform w region i = Inl e"
  shows "loop_body w region services action i =
           (None, [DescribeById region i, PrintFailedDetect i (exn_text e)])"
  using assms by (simp add: loop_body_def)

lemma loop_body_sent:
  assumes "detect_platform w region i = Inr p"
      and "select_script p services action = (script, document)"
      and "send_command w region i document (comment_of action services) script = Inr c"
  shows "loop_body w region services action i =
           (None, [DescribeById region i,
                   SendCommand region i document (comment_of action services) script,
                   PrintSent i action c])"
  using assms by (simp add: loop_body_def comment_of_def)

lemma loop_body_client_error:
  assumes "detect_platform w region i = Inr p"
      and "select_script p services action = (script, document)"
      and "send_command w region i document (comment_of action services) script
             = Inl (ClientError m)"
  shows "loop_body w region services action i =
           (None, [DescribeById region i,
                   SendCommand region i document (comment_of action services) script,
                   PrintErrorSending i m])"
  using assms by (simp add: loop_body_def comment_of_def)

lemma loop_body_other_error:
  assumes "detect_platform w region i = Inr p"
      and "select_script p services action = (script, document)"
      and "send_command w region i document (comment_of action services) script = Inl e"
      and "\<not> is_ClientError e"
  shows "loop_body w region services action i =
           (Some (Uncaught e),
            [DescribeById region i,
             SendCommand region i document (comment_of action services) script])"
  using assms by (cases e) (simp_all add: loop_body_def comment_of_def)

lemma dispatch_abort:
  assumes "loop_body w region services action i = (Some h, evs)"
  shows "dispatch w region services action (i # ids) = (h, evs)"
  using assms by simp

lemma main_first_call:
  assumes "env ''server_names'' = Some servers" "env ''Service'' = Some services"
      and "env ''Action'' = Some action"
      and "servers \<noteq> []" "services \<noteq> []" "action \<noteq> []"
      and "client w ''ec2'' (region_of env) = None"
  shows "\<exists>h evs. main env w =
           (h, DescribeByTag (region_of env) ''tag:Name'' (server_list servers) # evs)"
proof -
  obtain r evs where g: "get_instance_ids_by_name w (server_list servers) (region_of env) =
      (r, DescribeByTag (region_of env) ''tag:Name'' (server_list servers) # evs)"
    using resolve_first_call [OF assms(7)] by blast
  show ?thesis
    unfolding main_config_ok [OF assms(1-6)] g
    by (cases r) (auto split: prod.split option.split)
qed

lemma resolve_no_send:
  "get_instance_ids_by_name w names region = (r, evs) \<Longrightarrow> \<not> list_ex is_send evs"
  by (auto simp add: get_instance_ids_by_name_def split: option.splits sum.splits exn.splits)

lemma lower_char_eq:
  assumes "97 \<le> (of_char d :: nat)" "(of_char d :: nat) \<le> 122"
  shows "lower_char c = d \<longleftrightarrow> c = d \<or> c = upper_char d"
proof -
  let ?n = "of_char c :: nat" and ?m = "of_char d :: nat"
  have ud: "upper_char d = char_of (?m - 32)" using assms by (simp add: upper_char_def)
  have oud: "(of_char (upper_char d) :: nat) = ?m - 32"
    using assms unfolding ud by simp
  show ?thesis
  proof (cases "65 \<le> ?n \<and> ?n \<le> 90")
    case True
    then have lc: "lower_char c = char_of (?n + 32)" by (simp add: lower_char_def)
    have ne: "c \<noteq> d" using True assms by auto
    have "char_of (?n + 32) = d \<longleftrightarrow> ?n + 32 = ?m"
    proof
      assume "char_of (?n + 32) = d"
      then have "(of_char (char_of (?n + 32) :: char) :: nat) = ?m" by simp
      then show "?n + 32 = ?m" using True by simp
    next
      assume "?n + 32 = ?m"
      then show "char_of (?n + 32) = d" by simp
    qed
    also have "\<dots> \<longleftrightarrow> c = upper_char d"
    proof
      assume "?n + 32 = ?m"
      then have "?n = ?m - 32" by simp
      then have "char_of ?n = (char_of (?m - 32) :: char)" by simp
      then show "c = upper_char d" unfolding ud by simp
    next
      assume "c = upper_char d"
      then have "?n = ?m - 32" using oud by simp
      then show "?n + 32 = ?m" using assms by simp
    qed
    finally show ?thesis using lc ne by simp
  next
    case False
    then have lc: "lower_char c = c" by (auto simp add: lower_char_def)
    have "c \<noteq> upper_char d"
    proof
      assume "c = upper_char d"
      then have "?n = ?m - 32" using oud by simp
      then show False using False assms by auto
    qed
    then show ?thesis using lc by auto
  qed
qed

lemma lower_eq_lowercase:
  assumes "list_all (\<lambda>d. 97 \<le> (of_char d :: nat) \<and> (of_char d :: nat) \<le> 122) t"
  shows "lower p = t \<longleftrightarrow> list_all2 (\<lambda>c d. c = d \<or> c = upper_char d) p t"
  using assms
proof (induction t arbitrary: p)
  case Nil
  show ?case by (simp add: lower_def)
next
  case (Cons d t)
  show ?case
  proof (cases p)
    case Nil
    then show ?thesis by (simp add: lower_def)
  next
    case (Cons c cs)
    have "lower cs = t \<longleftrightarrow> list_all2 (\<lambda>c d. c = d \<or> c = upper_char d) cs t"
      using Cons.IH Cons.prems by simp
    moreover have "lower_char c = d \<longleftrightarrow> c = d \<or> c = upper_char d"
      using Cons.prems by (simp add: lower_char_eq)
    ultimately show ?thesis using Cons by (simp add: lower_def)
  qed
qed

lemma lower_windows:
  "lower p = ''windows'' \<longleftrightarrow> list_all2 (\<lambda>c d. c = d \<or> c = upper_char d) p ''windows''"
  by (rule lower_eq_lowercase) simp

lemma lower_Linux: "lower ''Linux'' = ''linux''"
  by code_simp

lemma loop_body_sends:
  assumes "detect_platform w region i = Inr p"
  shows "filter is_send (snd (loop_body w region services action i)) =
           [SendCommand region i (snd (select_script p services action))
              (comment_of action services) (fst (select_script p services action))]"
  using assms
  by (cases "select_script p services action")
     (simp add: loop_body_def comment_of_def split: sum.split exn.split)

lemma detect_fleet:
  "detect_platform fleet r ''i-1'' = Inr ''Linux''"
  "detect_platform fleet r ''i-2'' = Inl (ClientError ''InvalidInstanceID.NotFound'')"
  "detect_platform fleet r ''i-3'' = Inr ''Windows''"
  "detect_platform fleet r ''i-4'' = Inr ''linux''"
  by (simp_all add: detect_platform_def fleet_def inst1_def inst3_def inst4_def)

lemma select_script_fleet:
  "select_script ''Linux'' services action =
     (build_linux_script services action, ''AWS-RunShellScript'')"
  "select_script ''linux'' services action =
     (build_linux_script services action, ''AWS-RunShellScript'')"
  "select_script ''Windows'' services action =
     (build_windows_script services action, ''AWS-RunPowerShellScript'')"
proof -
  have "lower ''Linux'' = ''linux''" "lower ''linux'' = ''linux''" "lower ''Windows'' = ''windows''"
    by code_simp+
  then show
    "select_script ''Linux'' services action =
       (build_linux_script services action, ''AWS-RunShellScript'')"
    "select_script ''linux'' services action =
       (build_linux_script services action, ''AWS-RunShellScript'')"
    "select_script ''Windows'' services action =
       (build_windows_script services action, ''AWS-RunPowerShellScript'')"
    by (simp_all add: select_script_def)
qed

lemma send_fleet:
  "i \<noteq> ''i-4'' \<Longrightarrow> send_command fleet r i d c s = Inr (''cmd-'' @ i)"
  "send_command fleet r ''i-4'' d c s = Inl (ClientError ''ThrottlingException'')"
  "send_command fleet_offline r i d c s = Inl (BotoError ''Could not connect to the endpoint URL'')"
  by (simp_all add: fleet_def fleet_offline_def)

lemma detect_fleet_offline:
  "detect_platform fleet_offline r i = detect_platform fleet r i"
  by (simp add: detect_platform_def fleet_offline_def)

lemma client_fleet:
  "client fleet service ''us-east-1'' = None"
  "client fleet_offline service ''us-east-1'' = None"
  by (simp_all add: fleet_def fleet_offline_def)

lemma resolve_web1:
  "get_instance_ids_by_name fleet [''web-1''] ''us-east-1'' =
     (Inr [''i-1''], [DescribeByTag ''us-east-1'' ''tag:Name'' [''web-1''],
                      DescribeByTag ''us-east-1'' ''tag:Hostname'' [''web-1'']])"
  "get_instance_ids_by_name fleet_offline [''web-1''] ''us-east-1'' =
     (Inr [''i-1''], [DescribeByTag ''us-east-1'' ''tag:Name'' [''web-1''],
                      DescribeByTag ''us-east-1'' ''tag:Hostname'' [''web-1'']])"
  by (simp_all add: get_instance_ids_by_name_def fleet_def fleet_offline_def list_of_set_def
        inst1_def inst2_def)

lemma server_list_web1: "server_list ''web-1'' = [''web-1'']"
  by (simp add: server_list_def strip_def is_space_def)

lemma comma_list_one_field:
  "run_linux_script H ''nginx,redis'' ''start'' h = linux_loop_body H ''start'' ''nginx,redis'' h"
proof -
  have f: "sh_fields [] ''nginx,redis'' = [''nginx,redis'']"
    by (simp add: is_ifs_def)
  show ?thesis unfolding run_linux_script_def f by (simp split: prod.split)
qed

section \<open>The claims\<close>

text \<open>
  Claim C10. For every target-names string, the name list that \<open>main\<close> passes to
  resolution is the list of its comma-separated segments, each with the white space
  around it stripped, without the segments that are empty after stripping, in their
  order. The segments are those of the string (joined by commas they give it back, and
  none holds a comma); stripping removes a run of white space at either end and leaves
  none there; and \<^verbatim>\<open>" web-1, ,web-2 "\<close> gives \<^verbatim>\<open>["web-1", "web-2"]\<close>. With the three
  values present and the inventory client made for the region, the first call of the
  run is the display-name query with that list.
\<close>

theorem server_list_segments:
  "server_list servers = filter (\<lambda>s. s \<noteq> []) (map strip (split (CHR '','') servers))
   \<and> join '','' (split (CHR '','') servers) = servers
   \<and> (\<forall>seg \<in> set (split (CHR '','') servers). CHR '','' \<notin> set seg)
   \<and> (\<forall>s. \<exists>a b. s = a @ strip s @ b \<and> list_all is_space a \<and> list_all is_space b)
   \<and> (\<forall>s. strip s \<noteq> [] \<longrightarrow> \<not> is_space (hd (strip s)) \<and> \<not> is_space (last (strip s)))
   \<and> server_list '' web-1, ,web-2 '' = [''web-1'', ''web-2'']
   \<and> (env ''server_names'' = Some servers \<and> env ''Service'' = Some services
        \<and> env ''Action'' = Some action \<and> servers \<noteq> [] \<and> services \<noteq> [] \<and> action \<noteq> []
        \<and> client w ''ec2'' (region_of env) = None
       \<longrightarrow> (\<exists>h evs. main env w =
              (h, DescribeByTag (region_of env) ''tag:Name'' (server_list servers) # evs)))"
proof (intro conjI)
  show "server_list servers = filter (\<lambda>s. s \<noteq> []) (map strip (split (CHR '','') servers))"
    by (rule server_list_alt)
  show "join '','' (split (CHR '','') servers) = servers"
    by (rule join_split)
  show "\<forall>seg \<in> set (split (CHR '','') servers). CHR '','' \<notin> set seg"
    using split_no_sep by blast
  show "\<forall>s. \<exists>a b. s = a @ strip s @ b \<and> list_all is_space a \<and> list_all is_space b"
    using strip_decomp by blast
  show "\<forall>s. strip s \<noteq> [] \<longrightarrow> \<not> is_space (hd (strip s)) \<and> \<not> is_space (last (strip s))"
    using strip_ends by blast
  show "server_list '' web-1, ,web-2 '' = [''web-1'', ''web-2'']"
    by (simp add: server_list_def strip_def is_space_def)
  show "env ''server_names'' = Some servers \<and> env ''Service'' = Some services
        \<and> env ''Action'' = Some action \<and> servers \<noteq> [] \<and> services \<noteq> [] \<and> action \<noteq> []
        \<and> client w ''ec2'' (region_of env) = None
       \<longrightarrow> (\<exists>h evs. main env w =
              (h, DescribeByTag (region_of env) ''tag:Name'' (server_list servers) # evs))"
    using main_first_call by blast
qed

theorem server_list_segments_witness:
  "server_list '' web-1, ,web-2 '' = [''web-1'', ''web-2'']
   \<and> (\<exists>h evs. main env_spaced fleet =
         (h, DescribeByTag ''us-east-1'' ''tag:Name'' [''web-1'', ''web-2''] # evs))"
proof -
  have r: "region_of env_spaced = ''us-east-1''"
    by (simp add: env_spaced_def region_of_def)
  have e: "env_spaced ''server_names'' = Some '' web-1, ,web-2 '' \<and>
           env_spaced ''Service'' = Some ''nginx'' \<and> env_spaced ''Action'' = Some ''stop'' \<and>
           '' web-1, ,web-2 '' \<noteq> [] \<and> ''nginx'' \<noteq> [] \<and> ''stop'' \<noteq> [] \<and>
           client fleet ''ec2'' (region_of env_spaced) = None"
    unfolding r by (simp add: env_spaced_def client_fleet)
  note t = server_list_segments [of "'' web-1, ,web-2 ''" env_spaced "''nginx''" "''stop''" fleet]
  from t have x: "server_list '' web-1, ,web-2 '' = [''web-1'', ''web-2'']" by blast
  from t e have "\<exists>h evs. main env_spaced fleet =
      (h, DescribeByTag (region_of env_spaced) ''tag:Name'' (server_list '' web-1, ,web-2 '') # evs)"
    by blast
  with x r show ?thesis by simp
qed

text \<open>
  Claim C5. For every name list and every pair of answers to the two inventory queries,
  resolution returns a list without duplicates whose elements are exactly the
  identifiers of the instances that an answer reports as running: an instance reported
  in another state adds nothing, and one found by both queries is listed once. It
  returns such a list whenever the client is made and both queries answer, and whenever
  it returns a list, both queries have answered and the list is of this kind.
\<close>

theorem resolve_running_distinct:
  "(client w ''ec2'' region = None
      \<and> describe_by_tag w region ''tag:Name'' names = Inr rs1
      \<and> describe_by_tag w region ''tag:Hostname'' names = Inr rs2
     \<longrightarrow> (\<exists>ids evs. get_instance_ids_by_name w names region = (Inr ids, evs)
           \<and> distinct ids
           \<and> set ids =
               InstanceId ` {inst \<in> set (concat (rs1 @ rs2)). StateName inst = ''running''}))
   \<and> (get_instance_ids_by_name w names region = (Inr found, evs')
     \<longrightarrow> distinct found
         \<and> (\<exists>qs1 qs2. describe_by_tag w region ''tag:Name'' names = Inr qs1
               \<and> describe_by_tag w region ''tag:Hostname'' names = Inr qs2
               \<and> set found =
                   InstanceId ` {inst \<in> set (concat (qs1 @ qs2)). StateName inst = ''running''}))"
proof (intro conjI impI)
  assume a: "client w ''ec2'' region = None
      \<and> describe_by_tag w region ''tag:Name'' names = Inr rs1
      \<and> describe_by_tag w region ''tag:Hostname'' names = Inr rs2"
  then have "get_instance_ids_by_name w names region =
           (Inr (list_of_set w (running_ids (rs1 @ rs2))),
            [DescribeByTag region ''tag:Name'' names, DescribeByTag region ''tag:Hostname'' names])"
    using resolve_returns by blast
  then show "\<exists>ids evs. get_instance_ids_by_name w names region = (Inr ids, evs)
           \<and> distinct ids
           \<and> set ids =
               InstanceId ` {inst \<in> set (concat (rs1 @ rs2)). StateName inst = ''running''}"
    by (simp add: distinct_list_of_set set_list_of_set set_running_ids)
next
  assume b: "get_instance_ids_by_name w names region = (Inr found, evs')"
  then obtain qs1 qs2 where q: "describe_by_tag w region ''tag:Name'' names = Inr qs1"
      "describe_by_tag w region ''tag:Hostname'' names = Inr qs2"
      "found = list_of_set w (running_ids (qs1 @ qs2))"
    using resolve_returned by blast
  show "distinct found" unfolding q(3) by (rule distinct_list_of_set)
  have "set found =
      InstanceId ` {inst \<in> set (concat (qs1 @ qs2)). StateName inst = ''running''}"
    unfolding q(3) by (simp add: set_list_of_set set_running_ids)
  with q(1,2)
  show "\<exists>qs1 qs2. describe_by_tag w region ''tag:Name'' names = Inr qs1
               \<and> describe_by_tag w region ''tag:Hostname'' names = Inr qs2
               \<and> set found =
                   InstanceId ` {inst \<in> set (concat (qs1 @ qs2)). StateName inst = ''running''}"
    by blast
qed

theorem resolve_running_distinct_witness:
  "client fleet ''ec2'' ''us-east-1'' = None
   \<and> describe_by_tag fleet ''us-east-1'' ''tag:Name'' [''web-1''] = Inr [[inst1, inst2]]
   \<and> describe_by_tag fleet ''us-east-1'' ''tag:Hostname'' [''web-1''] = Inr [[inst1]]
   \<and> (\<exists>evs. get_instance_ids_by_name fleet [''web-1''] ''us-east-1'' = (Inr [''i-1''], evs))
   \<and> distinct [''i-1'']
   \<and> (\<exists>qs1 qs2. describe_by_tag fleet ''us-east-1'' ''tag:Name'' [''web-1''] = Inr qs1
         \<and> describe_by_tag fleet ''us-east-1'' ''tag:Hostname'' [''web-1''] = Inr qs2
         \<and> set [''i-1''] =
             InstanceId ` {inst \<in> set (concat (qs1 @ qs2)). StateName inst = ''running''})"
proof -
  have c: "client fleet ''ec2'' ''us-east-1'' = None"
    by (rule client_fleet)
  have a: "describe_by_tag fleet ''us-east-1'' ''tag:Name'' [''web-1''] = Inr [[inst1, inst2]]"
    by (simp add: fleet_def)
  have b: "describe_by_tag fleet ''us-east-1'' ''tag:Hostname'' [''web-1''] = Inr [[inst1]]"
    by (simp add: fleet_def)
  note t = resolve_running_distinct
    [where w = fleet and region = "''us-east-1''" and names = "[''web-1'']"
       and ?rs1.0 = "[[inst1, inst2]]" and ?rs2.0 = "[[inst1]]" and found = "[''i-1'']"
       and evs' = "[DescribeByTag ''us-east-1'' ''tag:Name'' [''web-1''],
                    DescribeByTag ''us-east-1'' ''tag:Hostname'' [''web-1'']]"]
  from t c a b obtain ids evs
    where g: "get_instance_ids_by_name fleet [''web-1''] ''us-east-1'' = (Inr ids, evs)"
    by blast
  then have "ids = [''i-1'']" by (simp add: resolve_web1)
  with g have 1: "\<exists>evs. get_instance_ids_by_name fleet [''web-1''] ''us-east-1'' = (Inr [''i-1''], evs)"
    by blast
  from t resolve_web1(1) have 2: "distinct [''i-1'']
   \<and> (\<exists>qs1 qs2. describe_by_tag fleet ''us-east-1'' ''tag:Name'' [''web-1''] = Inr qs1
         \<and> describe_by_tag fleet ''us-east-1'' ''tag:Hostname'' [''web-1''] = Inr qs2
         \<and> set [''i-1''] =
             InstanceId ` {inst \<in> set (concat (qs1 @ qs2)). StateName inst = ''running''})"
    by blast
  from c a b 1 2 show ?thesis by blast
qed

text \<open>
  Claim C6. With the three values present, when resolution returns the empty list the
  run prints that no running instance was found for the names, ends by
  \<^verbatim>\<open>sys.exit(1)\<close>, and its events are those of resolution followed by that line: no
  command is sent.
\<close>

theorem empty_resolution_exits:
  assumes "env ''server_names'' = Some servers" "env ''Service'' = Some services"
      and "env ''Action'' = Some action"
      and "servers \<noteq> []" "services \<noteq> []" "action \<noteq> []"
      and "get_instance_ids_by_name w (server_list servers) (region_of env) = (Inr [], evs)"
  shows "main env w = (SysExit 1, evs @ [PrintNoRunning (server_list servers)])
         \<and> exit_status (fst (main env w)) = 1
         \<and> \<not> list_ex is_send (snd (main env w))"
proof -
  have m: "main env w = (SysExit 1, evs @ [PrintNoRunning (server_list servers)])"
    using assms(7) by (simp add: main_config_ok [OF assms(1-6)])
  have "\<not> list_ex is_send evs" using assms(7) by (rule resolve_no_send)
  with m show ?thesis by simp
qed

theorem empty_resolution_exits_witness:
  "main env_ghost fleet =
     (SysExit 1, [DescribeByTag ''us-east-1'' ''tag:Name'' [''ghost''],
                  DescribeByTag ''us-east-1'' ''tag:Hostname'' [''ghost''],
                  PrintNoRunning [''ghost'']])
   \<and> exit_status (fst (main env_ghost fleet)) = 1
   \<and> \<not> list_ex is_send (snd (main env_ghost fleet))"
proof -
  have e: "env_ghost ''server_names'' = Some ''ghost''" "env_ghost ''Service'' = Some ''nginx''"
          "env_ghost ''Action'' = Some ''stop''" "''ghost'' \<noteq> []" "''nginx'' \<noteq> []" "''stop'' \<noteq> []"
    by (simp_all add: env_ghost_def)
  have r: "region_of env_ghost = ''us-east-1''"
    by (simp add: env_ghost_def region_of_def)
  have sl: "server_list ''ghost'' = [''ghost'']"
    by (simp add: server_list_def strip_def is_space_def)
  have g: "get_instance_ids_by_name fleet (server_list ''ghost'') (region_of env_ghost) =
             (Inr [], [DescribeByTag ''us-east-1'' ''tag:Name'' [''ghost''],
                       DescribeByTag ''us-east-1'' ''tag:Hostname'' [''ghost'']])"
    unfolding sl r
    by (simp add: get_instance_ids_by_name_def fleet_def list_of_set_def)
  show ?thesis using empty_resolution_exits [OF e g] sl by simp
qed

text \<open>
  Claim C8. When the record of an instance has no platform attribute, the platform read
  for it is the default \<^verbatim>\<open>"Linux"\<close>, and the one command the loop sends for the
  instance carries the Linux shell script under the document \<^verbatim>\<open>AWS-RunShellScript\<close>.
\<close>

theorem missing_platform_defaults_to_linux:
  assumes "describe_by_id w region i = Inr ((inst # insts) # rs)"
      and "Platform inst = None"
  shows "detect_platform w region i = Inr ''Linux''
         \<and> filter is_send (snd (loop_body w region services action i)) =
             [SendCommand region i ''AWS-RunShellScript'' (comment_of action services)
                (build_linux_script services action)]"
proof -
  have d: "detect_platform w region i = Inr ''Linux''"
    using assms by (simp add: detect_platform_def)
  show ?thesis using d loop_body_sends [OF d] by (simp add: select_script_fleet)
qed

theorem missing_platform_defaults_to_linux_witness:
  "describe_by_id fleet ''us-east-1'' ''i-1'' = Inr ((inst1 # []) # []) \<and> Platform inst1 = None
   \<and> detect_platform fleet ''us-east-1'' ''i-1'' = Inr ''Linux''
   \<and> filter is_send (snd (loop_body fleet ''us-east-1'' ''nginx'' ''stop'' ''i-1'')) =
       [SendCommand ''us-east-1'' ''i-1'' ''AWS-RunShellScript'' (comment_of ''stop'' ''nginx'')
          (build_linux_script ''nginx'' ''stop'')]"
proof -
  have a: "describe_by_id fleet ''us-east-1'' ''i-1'' = Inr ((inst1 # []) # [])"
    by (simp add: fleet_def)
  have b: "Platform inst1 = None" by (simp add: inst1_def)
  show ?thesis
    using a b missing_platform_defaults_to_linux [OF a b, of "''nginx''" "''stop''"] by simp
qed

text \<open>
  Claim C9. Whatever platform value was read for an instance, the one command the loop
  sends for it carries the PowerShell script under \<^verbatim>\<open>AWS-RunPowerShellScript\<close> when the
  value in lower case is \<^verbatim>\<open>windows\<close>, and the shell script under \<^verbatim>\<open>AWS-RunShellScript\<close>
  otherwise. The value in lower case is \<^verbatim>\<open>windows\<close> exactly when it has these seven
  letters, each in either case; the default \<^verbatim>\<open>"Linux"\<close> is not such a value.
\<close>

theorem platform_selects_document:
  assumes "detect_platform w region i = Inr p"
  shows "filter is_send (snd (loop_body w region services action i)) =
           [if lower p = ''windows''
            then SendCommand region i ''AWS-RunPowerShellScript'' (comment_of action services)
                   (build_windows_script services action)
            else SendCommand region i ''AWS-RunShellScript'' (comment_of action services)
                   (build_linux_script services action)]
         \<and> (lower p = ''windows'' \<longleftrightarrow>
              list_all2 (\<lambda>c d. c = d \<or> c = upper_char d) p ''windows'')
         \<and> lower ''Linux'' \<noteq> ''windows''"
  using loop_body_sends [OF assms] lower_windows [of p]
  by (simp add: select_script_def lower_Linux)

theorem platform_selects_document_witness:
  "detect_platform fleet ''us-east-1'' ''i-3'' = Inr ''Windows''
   \<and> filter is_send (snd (loop_body fleet ''us-east-1'' ''nginx'' ''stop'' ''i-3'')) =
       [SendCommand ''us-east-1'' ''i-3'' ''AWS-RunPowerShellScript'' (comment_of ''stop'' ''nginx'')
          (build_windows_script ''nginx'' ''stop'')]"
proof -
  have a: "detect_platform fleet ''us-east-1'' ''i-3'' = Inr ''Windows''"
    by (rule detect_fleet)
  have l: "lower ''Windows'' = ''windows''" by code_simp
  show ?thesis
    using a l platform_selects_document [OF a, of "''nginx''" "''stop''"] by simp
qed

text \<open>
  Claim C4. The loop over three instances, where the platform lookup raises for the
  second and both other commands are accepted, returns after these events in this
  order: lookup, command and the sent line for the first; lookup and the failure line
  for the second; lookup, command and the sent line for the third. The outcomes read
  off the printed lines are sent, platformDetectFailed, sent, and no command is sent to
  the second instance.
\<close>

theorem dispatch_three_second_detect_fails:
  assumes "detect_platform w region i1 = Inr p1"
      and "select_script p1 services action = (s1, d1)"
      and "send_command w region i1 d1 (comment_of action services) s1 = Inr c1"
      and "detect_platform w region i2 = Inl e"
      and "detect_platform w region i3 = Inr p3"
      and "select_script p3 services action = (s3, d3)"
      and "send_command w region i3 d3 (comment_of action services) s3 = Inr c3"
  shows "dispatch w region services action [i1, i2, i3] =
           (Returned,
            [DescribeById region i1,
             SendCommand region i1 d1 (comment_of action services) s1,
             PrintSent i1 action c1,
             DescribeById region i2,
             PrintFailedDetect i2 (exn_text e),
             DescribeById region i3,
             SendCommand region i3 d3 (comment_of action services) s3,
             PrintSent i3 action c3])
         \<and> outcomes (snd (dispatch w region services action [i1, i2, i3])) =
             [sent i1 c1, platformDetectFailed i2, sent i3 c3]
         \<and> \<not> list_ex (is_send_to i2) (snd (dispatch w region services action [i1, i2, i3]))"
proof -
  have ne: "i2 \<noteq> i1" "i2 \<noteq> i3" using assms(1,4,5) by auto
  have d: "dispatch w region services action [i1, i2, i3] =
           (Returned,
            [DescribeById region i1,
             SendCommand region i1 d1 (comment_of action services) s1,
             PrintSent i1 action c1,
             DescribeById region i2,
             PrintFailedDetect i2 (exn_text e),
             DescribeById region i3,
             SendCommand region i3 d3 (comment_of action services) s3,
             PrintSent i3 action c3])"
    by (simp add: loop_body_sent [OF assms(1-3)] loop_body_detect_failed [OF assms(4)]
          loop_body_sent [OF assms(5-7)])
  show ?thesis unfolding d using ne by (simp add: outcomes_def)
qed

theorem dispatch_three_second_detect_fails_witness:
  "dispatch fleet ''us-east-1'' ''nginx'' ''start'' [''i-1'', ''i-2'', ''i-3''] =
     (Returned,
      [DescribeById ''us-east-1'' ''i-1'',
       SendCommand ''us-east-1'' ''i-1'' ''AWS-RunShellScript'' (comment_of ''start'' ''nginx'')
         (build_linux_script ''nginx'' ''start''),
       PrintSent ''i-1'' ''start'' ''cmd-i-1'',
       DescribeById ''us-east-1'' ''i-2'',
       PrintFailedDetect ''i-2'' ''InvalidInstanceID.NotFound'',
       DescribeById ''us-east-1'' ''i-3'',
       SendCommand ''us-east-1'' ''i-3'' ''AWS-RunPowerShellScript'' (comment_of ''start'' ''nginx'')
         (build_windows_script ''nginx'' ''start''),
       PrintSent ''i-3'' ''start'' ''cmd-i-3''])
   \<and> outcomes (snd (dispatch fleet ''us-east-1'' ''nginx'' ''start'' [''i-1'', ''i-2'', ''i-3''])) =
       [sent ''i-1'' ''cmd-i-1'', platformDetectFailed ''i-2'', sent ''i-3'' ''cmd-i-3'']
   \<and> \<not> list_ex (is_send_to ''i-2'')
         (snd (dispatch fleet ''us-east-1'' ''nginx'' ''start'' [''i-1'', ''i-2'', ''i-3'']))"
proof -
  have s1: "send_command fleet ''us-east-1'' ''i-1'' ''AWS-RunShellScript''
              (comment_of ''start'' ''nginx'') (build_linux_script ''nginx'' ''start'') = Inr ''cmd-i-1''"
    by (simp add: send_fleet)
  have s3: "send_command fleet ''us-east-1'' ''i-3'' ''AWS-RunPowerShellScript''
              (comment_of ''start'' ''nginx'') (build_windows_script ''nginx'' ''start'') = Inr ''cmd-i-3''"
    by (simp add: send_fleet)
  note t = dispatch_three_second_detect_fails
      [OF detect_fleet(1) select_script_fleet(1) s1 detect_fleet(2) detect_fleet(3)
          select_script_fleet(3) s3, unfolded exn_text.simps]
  show ?thesis by (rule t)
qed

text \<open>
  Claim C1 says that a run whose action is a non-empty string other than \<^verbatim>\<open>start\<close>,
  \<^verbatim>\<open>stop\<close> and \<^verbatim>\<open>restart\<close> fails before resolution and dispatch. With the action
  \<^verbatim>\<open>reboot\<close> the run makes both inventory queries, looks the instance up, sends it a
  command and returns.
\<close>

theorem action_not_validated_counterexample:
  "env_reboot ''Action'' = Some ''reboot''
   \<and> ''reboot'' \<notin> set [''start'', ''stop'', ''restart'']
   \<and> main env_reboot fleet =
       (Returned,
        [DescribeByTag ''us-east-1'' ''tag:Name'' [''web-1''],
         DescribeByTag ''us-east-1'' ''tag:Hostname'' [''web-1''],
         DescribeById ''us-east-1'' ''i-1'',
         SendCommand ''us-east-1'' ''i-1'' ''AWS-RunShellScript'' (comment_of ''reboot'' ''nginx'')
           (build_linux_script ''nginx'' ''reboot''),
         PrintSent ''i-1'' ''reboot'' ''cmd-i-1''])"
proof -
  have e: "env_reboot ''server_names'' = Some ''web-1''" "env_reboot ''Service'' = Some ''nginx''"
          "env_reboot ''Action'' = Some ''reboot''" "''web-1'' \<noteq> []" "''nginx'' \<noteq> []"
          "''reboot'' \<noteq> []"
    by (simp_all add: env_reboot_def)
  have r: "region_of env_reboot = ''us-east-1''"
    by (simp add: env_reboot_def region_of_def)
  have s: "send_command fleet ''us-east-1'' ''i-1'' ''AWS-RunShellScript''
             (comment_of ''reboot'' ''nginx'') (build_linux_script ''nginx'' ''reboot'') = Inr ''cmd-i-1''"
    by (simp add: send_fleet)
  have "main env_reboot fleet =
       (Returned,
        [DescribeByTag ''us-east-1'' ''tag:Name'' [''web-1''],
         DescribeByTag ''us-east-1'' ''tag:Hostname'' [''web-1''],
         DescribeById ''us-east-1'' ''i-1'',
         SendCommand ''us-east-1'' ''i-1'' ''AWS-RunShellScript'' (comment_of ''reboot'' ''nginx'')
           (build_linux_script ''nginx'' ''reboot''),
         PrintSent ''i-1'' ''reboot'' ''cmd-i-1''])"
    unfolding main_config_ok [OF e] r server_list_web1 resolve_web1
    by (simp add: client_fleet loop_body_sent [OF detect_fleet(1) select_script_fleet(1) s])
  with e(3) show ?thesis by simp
qed

text \<open>
  Claim C1, as the program has it. Before any call to the provider \<open>main\<close> checks that
  the target names, the service list and the action are present and not empty; when one
  is missing or empty the run ends with the \<^verbatim>\<open>ValueError\<close> and no event. The action is
  not compared with \<^verbatim>\<open>start\<close>, \<^verbatim>\<open>stop\<close> and \<^verbatim>\<open>restart\<close>: with the three values present
  and not empty, whatever the action is, the run goes on to resolution: it makes the
  inventory client for the region, and either that raises, which ends the run with the
  exception and no event, or the first event of the run is the display-name query.
\<close>

theorem validation_checks_presence_only:
  "(py_not (env ''server_names'') \<or> py_not (env ''Service'') \<or> py_not (env ''Action'')
      \<longrightarrow> main env w =
            (Uncaught (ValueError ''Missing required env vars: servers, Service, Action''), []))
   \<and> (env ''server_names'' = Some servers \<and> env ''Service'' = Some services
        \<and> env ''Action'' = Some action \<and> servers \<noteq> [] \<and> services \<noteq> [] \<and> action \<noteq> []
        \<and> client w ''ec2'' (region_of env) = None
      \<longrightarrow> (\<exists>h evs. main env w =
             (h, DescribeByTag (region_of env) ''tag:Name'' (server_list servers) # evs)))
   \<and> (env ''server_names'' = Some servers \<and> env ''Service'' = Some services
        \<and> env ''Action'' = Some action \<and> servers \<noteq> [] \<and> services \<noteq> [] \<and> action \<noteq> []
        \<and> client w ''ec2'' (region_of env) = Some e
      \<longrightarrow> main env w = (Uncaught e, []))"
proof (intro conjI impI)
  assume "py_not (env ''server_names'') \<or> py_not (env ''Service'') \<or> py_not (env ''Action'')"
  then show "main env w =
            (Uncaught (ValueError ''Missing required env vars: servers, Service, Action''), [])"
    by (rule main_config_missing)
next
  assume "env ''server_names'' = Some servers \<and> env ''Service'' = Some services
        \<and> env ''Action'' = Some action \<and> servers \<noteq> [] \<and> services \<noteq> [] \<and> action \<noteq> []
        \<and> client w ''ec2'' (region_of env) = None"
  then show "\<exists>h evs. main env w =
             (h, DescribeByTag (region_of env) ''tag:Name'' (server_list servers) # evs)"
    using main_first_call by blast
next
  assume a: "env ''server_names'' = Some servers \<and> env ''Service'' = Some services
        \<and> env ''Action'' = Some action \<and> servers \<noteq> [] \<and> services \<noteq> [] \<and> action \<noteq> []
        \<and> client w ''ec2'' (region_of env) = Some e"
  then have g: "get_instance_ids_by_name w (server_list servers) (region_of env) =
      (Inl (Uncaught e), [])"
    using resolve_no_client by blast
  from a have m: "main env w =
     (case get_instance_ids_by_name w (server_list servers) (region_of env) of
        (Inl h, evs) \<Rightarrow> (h, evs)
      | (Inr instance_ids, evs) \<Rightarrow>
          if instance_ids = [] then (SysExit 1, evs @ [PrintNoRunning (server_list servers)])
          else (case client w ''ec2'' (region_of env) of
                  Some e \<Rightarrow> (Uncaught e, evs)
                | None \<Rightarrow>
               (case client w ''ssm'' (region_of env) of
                  Some e \<Rightarrow> (Uncaught e, evs)
                | None \<Rightarrow>
               (case dispatch w (region_of env) services action instance_ids of
                  (h, evs') \<Rightarrow> (h, evs @ evs')))))"
    using main_config_ok [of env servers services action w] by blast
  show "main env w = (Uncaught e, [])" unfolding m g by simp
qed

theorem validation_checks_presence_only_witness:
  "main env_no_action fleet =
     (Uncaught (ValueError ''Missing required env vars: servers, Service, Action''), [])
   \<and> (\<exists>h evs. main env_reboot fleet =
         (h, DescribeByTag ''us-east-1'' ''tag:Name'' [''web-1''] # evs))
   \<and> main env_blank_region fleet = (Uncaught (ValueError ''Invalid endpoint''), [])"
proof -
  have a: "py_not (env_no_action ''server_names'') \<or> py_not (env_no_action ''Service'')
           \<or> py_not (env_no_action ''Action'')"
    by (simp add: env_no_action_def py_not_def)
  have r: "region_of env_reboot = ''us-east-1''"
    by (simp add: env_reboot_def region_of_def)
  have e: "env_reboot ''server_names'' = Some ''web-1'' \<and> env_reboot ''Service'' = Some ''nginx''
           \<and> env_reboot ''Action'' = Some ''reboot'' \<and> ''web-1'' \<noteq> [] \<and> ''nginx'' \<noteq> []
           \<and> ''reboot'' \<noteq> [] \<and> client fleet ''ec2'' (region_of env_reboot) = None"
    unfolding r by (simp add: env_reboot_def client_fleet)
  have b: "env_blank_region ''server_names'' = Some ''web-1''
           \<and> env_blank_region ''Service'' = Some ''nginx''
           \<and> env_blank_region ''Action'' = Some ''stop'' \<and> ''web-1'' \<noteq> [] \<and> ''nginx'' \<noteq> []
           \<and> ''stop'' \<noteq> []
           \<and> client fleet ''ec2'' (region_of env_blank_region) = Some (ValueError ''Invalid endpoint'')"
    by (simp add: env_blank_region_def region_of_def fleet_def)
  from a validation_checks_presence_only [where env = env_no_action and w = fleet]
  have 1: "main env_no_action fleet =
     (Uncaught (ValueError ''Missing required env vars: servers, Service, Action''), [])"
    by blast
  from e validation_checks_presence_only
    [where env = env_reboot and servers = "''web-1''" and services = "''nginx''"
       and action = "''reboot''" and w = fleet]
  have "\<exists>h evs. main env_reboot fleet =
         (h, DescribeByTag (region_of env_reboot) ''tag:Name'' (server_list ''web-1'') # evs)"
    by blast
  then have 2: "\<exists>h evs. main env_reboot fleet =
         (h, DescribeByTag ''us-east-1'' ''tag:Name'' [''web-1''] # evs)"
    unfolding r server_list_web1 .
  from b validation_checks_presence_only
    [where env = env_blank_region and servers = "''web-1''" and services = "''nginx''"
       and action = "''stop''" and w = fleet and e = "ValueError ''Invalid endpoint''"]
  have 3: "main env_blank_region fleet = (Uncaught (ValueError ''Invalid endpoint''), [])"
    by blast
  from 1 2 3 show ?thesis by blast
qed

text \<open>
  Claim C7, at a submission that raises an exception other than \<^verbatim>\<open>ClientError\<close>: the
  command channel cannot be reached, and the command for \<^verbatim>\<open>i-1\<close>, the first of two
  instances, raises a connection error. The second \<^verbatim>\<open>try\<close> of the loop catches
  \<^verbatim>\<open>ClientError\<close> only: nothing is printed for \<^verbatim>\<open>i-1\<close>, the instance \<^verbatim>\<open>i-3\<close> is never
  looked up, and the run ends with the exception and status 1. The first \<^verbatim>\<open>try\<close> of
  the same loop catches every exception: when the lookup raises the same error, the
  failure is printed and the loop goes on. A submission that raises \<^verbatim>\<open>ClientError\<close> is
  printed and the loop goes on.
\<close>

theorem submission_error_ends_the_run:
  "send_command fleet_offline ''us-east-1'' ''i-1'' ''AWS-RunShellScript''
      (comment_of ''stop'' ''nginx'') (build_linux_script ''nginx'' ''stop'')
     = Inl (BotoError ''Could not connect to the endpoint URL'')
   \<and> dispatch fleet_offline ''us-east-1'' ''nginx'' ''stop'' [''i-1'', ''i-3''] =
       (Uncaught (BotoError ''Could not connect to the endpoint URL''),
        [DescribeById ''us-east-1'' ''i-1'',
         SendCommand ''us-east-1'' ''i-1'' ''AWS-RunShellScript'' (comment_of ''stop'' ''nginx'')
           (build_linux_script ''nginx'' ''stop'')])
   \<and> main env_stop fleet_offline =
       (Uncaught (BotoError ''Could not connect to the endpoint URL''),
        [DescribeByTag ''us-east-1'' ''tag:Name'' [''web-1''],
         DescribeByTag ''us-east-1'' ''tag:Hostname'' [''web-1''],
         DescribeById ''us-east-1'' ''i-1'',
         SendCommand ''us-east-1'' ''i-1'' ''AWS-RunShellScript'' (comment_of ''stop'' ''nginx'')
           (build_linux_script ''nginx'' ''stop'')])
   \<and> exit_status (fst (main env_stop fleet_offline)) = 1
   \<and> dispatch fleet_lookup_down ''us-east-1'' ''nginx'' ''stop'' [''i-1'', ''i-3''] =
       (Returned,
        [DescribeById ''us-east-1'' ''i-1'',
         PrintFailedDetect ''i-1'' ''Could not connect to the endpoint URL'',
         DescribeById ''us-east-1'' ''i-3'',
         PrintFailedDetect ''i-3'' ''Could not connect to the endpoint URL''])
   \<and> dispatch fleet ''us-east-1'' ''nginx'' ''stop'' [''i-4'', ''i-1''] =
       (Returned,
        [DescribeById ''us-east-1'' ''i-4'',
         SendCommand ''us-east-1'' ''i-4'' ''AWS-RunShellScript'' (comment_of ''stop'' ''nginx'')
           (build_linux_script ''nginx'' ''stop''),
         PrintErrorSending ''i-4'' ''ThrottlingException'',
         DescribeById ''us-east-1'' ''i-1'',
         SendCommand ''us-east-1'' ''i-1'' ''AWS-RunShellScript'' (comment_of ''stop'' ''nginx'')
           (build_linux_script ''nginx'' ''stop''),
         PrintSent ''i-1'' ''stop'' ''cmd-i-1''])"
proof -
  have e: "env_stop ''server_names'' = Some ''web-1''" "env_stop ''Service'' = Some ''nginx''"
          "env_stop ''Action'' = Some ''stop''" "''web-1'' \<noteq> []" "''nginx'' \<noteq> []"
          "''stop'' \<noteq> []"
    by (simp_all add: env_stop_def)
  have r: "region_of env_stop = ''us-east-1''"
    by (simp add: env_stop_def region_of_def)
  have s: "send_command fleet_offline ''us-east-1'' ''i-1'' ''AWS-RunShellScript''
      (comment_of ''stop'' ''nginx'') (build_linux_script ''nginx'' ''stop'')
     = Inl (BotoError ''Could not connect to the endpoint URL'')"
    by (rule send_fleet)
  have d: "detect_platform fleet_offline ''us-east-1'' ''i-1'' = Inr ''Linux''"
    by (simp add: detect_fleet_offline detect_fleet)
  have b: "loop_body fleet_offline ''us-east-1'' ''nginx'' ''stop'' ''i-1'' =
       (Some (Uncaught (BotoError ''Could not connect to the endpoint URL'')),
        [DescribeById ''us-east-1'' ''i-1'',
         SendCommand ''us-east-1'' ''i-1'' ''AWS-RunShellScript'' (comment_of ''stop'' ''nginx'')
           (build_linux_script ''nginx'' ''stop'')])"
    by (rule loop_body_other_error [OF d select_script_fleet(1) s]) simp
  have m: "main env_stop fleet_offline =
       (Uncaught (BotoError ''Could not connect to the endpoint URL''),
        [DescribeByTag ''us-east-1'' ''tag:Name'' [''web-1''],
         DescribeByTag ''us-east-1'' ''tag:Hostname'' [''web-1''],
         DescribeById ''us-east-1'' ''i-1'',
         SendCommand ''us-east-1'' ''i-1'' ''AWS-RunShellScript'' (comment_of ''stop'' ''nginx'')
           (build_linux_script ''nginx'' ''stop'')])"
    unfolding main_config_ok [OF e] r server_list_web1 resolve_web1
    by (simp add: b client_fleet)
  have x: "dispatch fleet_offline ''us-east-1'' ''nginx'' ''stop'' [''i-1'', ''i-3''] =
       (Uncaught (BotoError ''Could not connect to the endpoint URL''),
        [DescribeById ''us-east-1'' ''i-1'',
         SendCommand ''us-east-1'' ''i-1'' ''AWS-RunShellScript'' (comment_of ''stop'' ''nginx'')
           (build_linux_script ''nginx'' ''stop'')])"
    by (rule dispatch_abort [OF b])
  have dd: "detect_platform fleet_lookup_down ''us-east-1'' i =
              Inl (BotoError ''Could not connect to the endpoint URL'')" for i
    by (simp add: detect_platform_def fleet_lookup_down_def)
  have y: "dispatch fleet_lookup_down ''us-east-1'' ''nginx'' ''stop'' [''i-1'', ''i-3''] =
       (Returned,
        [DescribeById ''us-east-1'' ''i-1'',
         PrintFailedDetect ''i-1'' ''Could not connect to the endpoint URL'',
         DescribeById ''us-east-1'' ''i-3'',
         PrintFailedDetect ''i-3'' ''Could not connect to the endpoint URL''])"
    by (simp add: loop_body_detect_failed [OF dd])
  have s4: "send_command fleet ''us-east-1'' ''i-4'' ''AWS-RunShellScript''
      (comment_of ''stop'' ''nginx'') (build_linux_script ''nginx'' ''stop'')
     = Inl (ClientError ''ThrottlingException'')"
    by (rule send_fleet)
  have s1: "send_command fleet ''us-east-1'' ''i-1'' ''AWS-RunShellScript''
      (comment_of ''stop'' ''nginx'') (build_linux_script ''nginx'' ''stop'') = Inr ''cmd-i-1''"
    by (simp add: send_fleet)
  have z: "dispatch fleet ''us-east-1'' ''nginx'' ''stop'' [''i-4'', ''i-1''] =
       (Returned,
        [DescribeById ''us-east-1'' ''i-4'',
         SendCommand ''us-east-1'' ''i-4'' ''AWS-RunShellScript'' (comment_of ''stop'' ''nginx'')
           (build_linux_script ''nginx'' ''stop''),
         PrintErrorSending ''i-4'' ''ThrottlingException'',
         DescribeById ''us-east-1'' ''i-1'',
         SendCommand ''us-east-1'' ''i-1'' ''AWS-RunShellScript'' (comment_of ''stop'' ''nginx'')
           (build_linux_script ''nginx'' ''stop''),
         PrintSent ''i-1'' ''stop'' ''cmd-i-1''])"
    by (simp add: loop_body_client_error [OF detect_fleet(4) select_script_fleet(2) s4]
          loop_body_sent [OF detect_fleet(1) select_script_fleet(1) s1])
  show ?thesis unfolding m x y z using s by simp
qed

text \<open>
  Claim C2, at the service list \<^verbatim>\<open>nginx,redis\<close> with the action \<^verbatim>\<open>start\<close>. The Linux
  script splits \<^verbatim>\<open>$services\<close> at white space, so the comma-separated list is one field:
  on every host the loop runs once, for the name \<^verbatim>\<open>nginx,redis\<close>. On a host that has
  both units the script prints that \<^verbatim>\<open>nginx,redis\<close> was not found and touches neither
  service; written with a blank between the names, the same list starts both.
\<close>

theorem linux_script_takes_comma_list_as_one_name:
  \<open>sh_fields [] ''nginx,redis'' = [''nginx,redis'']
   \<and> run_linux_script H ''nginx,redis'' ''start'' h = linux_loop_body H ''start'' ''nginx,redis'' h
   \<and> run_linux_script two_unit_host ''nginx,redis'' ''start'' [] =
       ([], [Echo ''Error: nginx,redis not found on this system''])
   \<and> run_linux_script two_unit_host ''nginx redis'' ''start'' [] =
       ([''redis'', ''nginx''],
        [Systemctl ''start'' ''nginx'', Echo ''Started nginx'',
         Systemctl ''start'' ''redis'', Echo ''Started redis''])\<close>
proof -
  have f: "sh_fields [] ''nginx,redis'' = [''nginx,redis'']"
    by (simp add: is_ifs_def)
  have g: "sh_fields [] ''nginx redis'' = [''nginx'', ''redis'']"
    by (simp add: is_ifs_def)
  have 1: "run_linux_script H ''nginx,redis'' ''start'' h = linux_loop_body H ''start'' ''nginx,redis'' h"
    by (rule comma_list_one_field)
  have u: "\<not> unit_listed two_unit_host [] ''nginx,redis''"
    by (simp add: two_unit_host_def) code_simp
  have 2: "run_linux_script two_unit_host ''nginx,redis'' ''start'' [] =
       ([], [Echo ''Error: nginx,redis not found on this system''])"
    unfolding comma_list_one_field using u by (simp add: linux_loop_body_def)
  have l: "unit_listed two_unit_host h' ''nginx''" "unit_listed two_unit_host h' ''redis''" for h'
    by (simp_all add: two_unit_host_def)
  have 3: "run_linux_script two_unit_host ''nginx redis'' ''start'' [] =
       ([''redis'', ''nginx''],
        [Systemctl ''start'' ''nginx'', Echo ''Started nginx'',
         Systemctl ''start'' ''redis'', Echo ''Started redis''])"
    unfolding run_linux_script_def g
    by (simp add: linux_loop_body_def l systemctl_and_report_def) (simp add: two_unit_host_def)
  from f 1 2 3 show ?thesis by blast
qed

text \<open>
  Claim C3, at the service \<^verbatim>\<open>nginx\<close>, listed and already running, with the action
  \<^verbatim>\<open>start\<close>. The Linux script runs \<^verbatim>\<open>systemctl start\<close> for it and prints
  \<^verbatim>\<open>Started nginx\<close>; the words \<^verbatim>\<open>already running\<close> are in the Windows script and not
  in the Linux one.
\<close>

theorem linux_start_reports_started_when_running:
  \<open>run_linux_script two_unit_host ''nginx'' ''start'' [''nginx''] =
       ([''nginx''], [Systemctl ''start'' ''nginx'', Echo ''Started nginx''])
   \<and> \<not> sublist ''already running'' (build_linux_script ''nginx'' ''start'')
   \<and> sublist ''already running'' (build_windows_script ''nginx'' ''start'')\<close>
proof -
  have f: "sh_fields [] ''nginx'' = [''nginx'']"
    by (simp add: is_ifs_def)
  have l: "unit_listed two_unit_host h' ''nginx''" for h'
    by (simp add: two_unit_host_def)
  have 1: "run_linux_script two_unit_host ''nginx'' ''start'' [''nginx''] =
       ([''nginx''], [Systemctl ''start'' ''nginx'', Echo ''Started nginx''])"
    unfolding run_linux_script_def f
    by (simp add: linux_loop_body_def l systemctl_and_report_def two_unit_host_def)
  have 2: "\<not> sublist ''already running'' (build_linux_script ''nginx'' ''start'')"
    by code_simp
  have 3: "sublist ''already running'' (build_windows_script ''nginx'' ''start'')"
    by code_simp
  from 1 2 3 show ?thesis by blast
qed

end
